theory Spec2Isabelle
  imports Main "HOL-Library.AList" "HOL-Library.Sublist"
begin

section \<open>JavaScript values\<close>

text \<open>
  The values that flow through \<^verbatim>\<open>umc_server/api-server.js\<close>: what \<^verbatim>\<open>match\<close> settles
  with, what the query object holds and what \<^verbatim>\<open>JSON.stringify\<close> is given. Numbers are
  integers (bitrates and sizes); an object is an ordinary object, given by the list
  of its own properties, in insertion order, with distinct keys. The values are data:
  no property holds a function. An \<^verbatim>\<open>Error\<close> is an object with a \<^verbatim>\<open>message\<close>
  property.
\<close>

datatype jsval =
    JUndefined
  | JNull
  | JBool bool
  | JNum int
  | JStr string
  | JArr "jsval list"
  | JObj "(string \<times> jsval) list"

text \<open>Truthiness, as \<^verbatim>\<open>||\<close> and \<^verbatim>\<open>? :\<close> test it.\<close>

fun truthy :: "jsval \<Rightarrow> bool" where
  "truthy JUndefined = False"
| "truthy JNull = False"
| "truthy (JBool b) = b"
| "truthy (JNum n) = (n \<noteq> 0)"
| "truthy (JStr s) = (s \<noteq> [])"
| "truthy (JArr xs) = True"
| "truthy (JObj fs) = True"

fun nullish :: "jsval \<Rightarrow> bool" where
  "nullish JUndefined = True"
| "nullish JNull = True"
| "nullish v = False"

text \<open>
  Reading a property \<^verbatim>\<open>v.k\<close> of a value that is neither \<^verbatim>\<open>undefined\<close> nor
  \<^verbatim>\<open>null\<close>, for the property names the server reads (\<^verbatim>\<open>url\<close>, \<^verbatim>\<open>br\<close>,
  \<^verbatim>\<open>size\<close>, \<^verbatim>\<open>md5\<close>, \<^verbatim>\<open>source\<close>, \<^verbatim>\<open>message\<close>): an object yields its own
  property or \<^verbatim>\<open>undefined\<close>, a primitive or an array has none of them.
\<close>

fun get_prop :: "jsval \<Rightarrow> string \<Rightarrow> jsval" where
  "get_prop (JObj fs) k = (case map_of fs k of Some v \<Rightarrow> v | None \<Rightarrow> JUndefined)"
| "get_prop v k = JUndefined"

text \<open>
  The engine's message of the \<^verbatim>\<open>TypeError\<close> raised by reading a property of
  \<^verbatim>\<open>undefined\<close> or \<^verbatim>\<open>null\<close> (the wording of V8).
\<close>

definition nullish_read_message :: "jsval \<Rightarrow> string \<Rightarrow> string" where
  "nullish_read_message v k =
     ''Cannot read properties of '' @ (if v = JNull then ''null'' else ''undefined'') @
     '' (reading '' @ [CHR 0x27] @ k @ [CHR 0x27] @ '')''"

definition TypeError :: "string \<Rightarrow> jsval" where
  "TypeError msg = JObj [(''message'', JStr msg)]"

text \<open>
  Whether converting a value to a string, as a template literal does with
  \<^verbatim>\<open>${v}\<close>, raises a \<^verbatim>\<open>TypeError\<close>. A primitive never does. An object is
  converted by its \<^verbatim>\<open>toString\<close>, then its \<^verbatim>\<open>valueOf\<close>: with an own property
  \<^verbatim>\<open>toString\<close>, which is no function here, neither gives a primitive and the
  conversion raises; without one, \<^verbatim>\<open>Object.prototype.toString\<close> answers. An array
  is converted by joining its elements, each converted in turn (\<^verbatim>\<open>undefined\<close> and
  \<^verbatim>\<open>null\<close> as the empty string).
\<close>

fun ToString_throws :: "jsval \<Rightarrow> bool"
  and join_throws :: "jsval list \<Rightarrow> bool" where
  "ToString_throws (JObj fs) = (map_of fs ''toString'' \<noteq> None)"
| "ToString_throws (JArr xs) = join_throws xs"
| "ToString_throws JUndefined = False"
| "ToString_throws JNull = False"
| "ToString_throws (JBool b) = False"
| "ToString_throws (JNum n) = False"
| "ToString_throws (JStr s) = False"
| "join_throws [] = False"
| "join_throws (x # xs) = (ToString_throws x \<or> join_throws xs)"

text \<open>The error of a failed conversion (the wording of V8).\<close>

definition conversion_error :: jsval where
  "conversion_error = TypeError ''Cannot convert object to primitive value''"

subsection \<open>Strings\<close>

definition startsWith :: "string \<Rightarrow> string \<Rightarrow> bool" where
  "startsWith s p = (take (length p) s = p)"

text \<open>
  \<^verbatim>\<open>s.split(sep)\<close>: the pieces of \<open>s\<close> between the occurrences of \<open>sep\<close>, found
  from the left and not overlapping; \<open>cur\<close> is the piece being read. An empty
  separator splits into single characters.
\<close>

fun split_from :: "string \<Rightarrow> string \<Rightarrow> string \<Rightarrow> string list" where
  "split_from sep cur [] = [cur]"
| "split_from sep cur (c # cs) =
     (if sep \<noteq> [] \<and> startsWith (c # cs) sep
      then cur # split_from sep [] (drop (length sep) (c # cs))
      else split_from sep (cur @ [c]) cs)"

definition split_str :: "string \<Rightarrow> string \<Rightarrow> string list" where
  "split_str s sep = (if sep = [] then map (\<lambda>c. [c]) s else split_from sep [] s)"

text \<open>\<^verbatim>\<open>s.includes(sep)\<close>: \<open>sep\<close> occurs somewhere in \<open>s\<close>.\<close>

fun includes_str :: "string \<Rightarrow> string \<Rightarrow> bool" where
  "includes_str [] sep = (sep = [])"
| "includes_str (c # cs) sep = (startsWith (c # cs) sep \<or> includes_str cs sep)"

text \<open>\<^verbatim>\<open>xs.join(sep)\<close>.\<close>

fun join :: "string list \<Rightarrow> string \<Rightarrow> string" where
  "join [] sep = []"
| "join [x] sep = x"
| "join (x # y # ys) sep = x @ sep @ join (y # ys) sep"

text \<open>\<^verbatim>\<open>xs[i]\<close> on an array of strings: \<^verbatim>\<open>undefined\<close> out of range.\<close>

definition at_index :: "string list \<Rightarrow> nat \<Rightarrow> jsval" where
  "at_index xs i = (if i < length xs then JStr (xs ! i) else JUndefined)"

subsection \<open>\<^verbatim>\<open>JSON.stringify\<close>\<close>

text \<open>
  The body of a JSON response is modelled as the value that the text sent denotes:
  \<^verbatim>\<open>JSON.stringify\<close> leaves out every property of an object whose value is
  \<^verbatim>\<open>undefined\<close> and writes \<^verbatim>\<open>null\<close> for an \<^verbatim>\<open>undefined\<close> array element. The
  indentation (\<^verbatim>\<open>null, 2\<close>) changes the text only.
\<close>

fun stringify :: "jsval \<Rightarrow> jsval"
  and stringify_elems :: "jsval list \<Rightarrow> jsval list"
  and stringify_props :: "(string \<times> jsval) list \<Rightarrow> (string \<times> jsval) list" where
  "stringify (JArr xs) = JArr (stringify_elems xs)"
| "stringify (JObj fs) = JObj (stringify_props fs)"
| "stringify JUndefined = JUndefined"
| "stringify JNull = JNull"
| "stringify (JBool b) = JBool b"
| "stringify (JNum n) = JNum n"
| "stringify (JStr s) = JStr s"
| "stringify_elems [] = []"
| "stringify_elems (x # xs) =
     (if x = JUndefined then JNull else stringify x) # stringify_elems xs"
| "stringify_props [] = []"
| "stringify_props ((k, v) # fs) =
     (if v = JUndefined then stringify_props fs else (k, stringify v) # stringify_props fs)"

section \<open>The HTTP server of \<^verbatim>\<open>umc_server/api-server.js\<close>\<close>

subsection \<open>Requests, responses and the collaborators\<close>

record request =
  "method" :: string
  url :: string

text \<open>
  What \<^verbatim>\<open>url.parse(req.url, true)\<close> returns, as far as the server reads it. Node's
  parser is not part of the repository: the handler takes it as a parameter, and the
  theorems hold for every parser.
\<close>

record parsed_url =
  pathname :: string
  query :: "(string \<times> jsval) list"

text \<open>
  The promise returned by \<^verbatim>\<open>match(songId, sources)\<close>
  (\<^verbatim>\<open>./server/src/provider/match\<close>, not among the sources): it is fulfilled with a
  value, rejected with a reason, or never settles.
\<close>

datatype outcome = Resolved jsval | Rejected jsval | Pending

datatype body = NoBody | JsonBody jsval | DocumentationPage

record response =
  status :: nat
  headers :: "(string \<times> string) list"
  body :: body

text \<open>
  What handling one request comes to: a response is sent; an exception leaves the
  request listener uncaught; the \<^verbatim>\<open>.catch\<close> handler itself raises, which leaves a
  rejection that nothing handles, and nothing is sent; or nothing is sent because the
  promise stays pending.
\<close>

datatype handled = Response response | Uncaught jsval | Unhandled jsval | NoResponse

text \<open>
  \<^verbatim>\<open>res.setHeader(name, value)\<close> on the headers set so far, and
  \<^verbatim>\<open>res.writeHead(status, hdrs); res.end(body)\<close>: the headers given to
  \<^verbatim>\<open>writeHead\<close> are merged into those already set.
\<close>

definition setHeader :: "string \<Rightarrow> string \<Rightarrow> (string \<times> string) list \<Rightarrow> (string \<times> string) list" where
  "setHeader name v hs = AList.update name v hs"

definition writeHead_end ::
  "(string \<times> string) list \<Rightarrow> nat \<Rightarrow> (string \<times> string) list \<Rightarrow> body \<Rightarrow> response" where
  "writeHead_end res st hdrs b =
     \<lparr>status = st, headers = fold (\<lambda>(k, v). setHeader k v) hdrs res, body = b\<rparr>"

subsection \<open>The request listener\<close>

text \<open>Lines 16 to 18: the three headers set before any routing.\<close>

definition cors_headers :: "(string \<times> string) list" where
  "cors_headers =
     setHeader ''Access-Control-Allow-Headers'' ''Content-Type''
       (setHeader ''Access-Control-Allow-Methods'' ''GET, OPTIONS''
         (setHeader ''Access-Control-Allow-Origin'' ''*'' []))"

text \<open>Line 28: \<^verbatim>\<open>parsedUrl.pathname.split('/match/')[1]\<close>.\<close>

definition songId_of :: "parsed_url \<Rightarrow> jsval" where
  "songId_of parsedUrl = at_index (split_str (pathname parsedUrl) ''/match/'') 1"

text \<open>Line 31: the list used when the query has no (or an empty) \<^verbatim>\<open>sources\<close>.\<close>

definition default_sources :: "string list" where
  "default_sources = [''qq'', ''kugou'', ''kuwo'', ''migu'', ''ytdlp'']"

text \<open>
  Lines 29 to 31. A repeated \<^verbatim>\<open>sources\<close> parameter is parsed to an array, which is
  truthy and has no \<^verbatim>\<open>split\<close>: the call raises a \<^verbatim>\<open>TypeError\<close>.
\<close>

definition sources_of :: "parsed_url \<Rightarrow> jsval + string list" where
  "sources_of parsedUrl =
     (let q = (case map_of (query parsedUrl) ''sources'' of Some v \<Rightarrow> v | None \<Rightarrow> JUndefined)
      in if truthy q
         then (case q of
                 JStr s \<Rightarrow> Inr (split_str s '','')
               | _ \<Rightarrow> Inl (TypeError ''parsedUrl.query.sources.split is not a function''))
         else Inr default_sources)"

text \<open>Lines 39 to 49: the object given to \<^verbatim>\<open>JSON.stringify\<close> on success.\<close>

definition success_object :: "jsval \<Rightarrow> string list \<Rightarrow> jsval \<Rightarrow> (string \<times> jsval) list" where
  "success_object songId sources result =
     [(''success'', JBool True),
      (''songId'', songId),
      (''requestedSources'', JArr (map JStr sources)),
      (''audioUrl'', get_prop result ''url''),
      (''bitrate'', get_prop result ''br''),
      (''size'', get_prop result ''size''),
      (''md5'', get_prop result ''md5''),
      (''source'', get_prop result ''source''),
      (''type'', JStr (if get_prop result ''br'' = JNum 999000 then ''flac'' else ''mp3''))]"

text \<open>Line 52: \<^verbatim>\<open>error?.message || 'Unknown error'\<close>.\<close>

definition errorMessage_of :: "jsval \<Rightarrow> jsval" where
  "errorMessage_of error =
     (let m = (if nullish error then JUndefined else get_prop error ''message'')
      in if truthy m then m else JStr ''Unknown error'')"

text \<open>Lines 55 to 61: the object given to \<^verbatim>\<open>JSON.stringify\<close> on failure.\<close>

definition failure_object :: "jsval \<Rightarrow> string list \<Rightarrow> jsval \<Rightarrow> (string \<times> jsval) list" where
  "failure_object songId sources errorMessage =
     [(''success'', JBool False),
      (''songId'', songId),
      (''requestedSources'', JArr (map JStr sources)),
      (''error'', JStr ''Song not found in any source''),
      (''details'', errorMessage)]"

text \<open>
  Lines 51 to 62: the \<^verbatim>\<open>.catch\<close> handler. Line 53 builds its console line from
  \<^verbatim>\<open>${errorMessage}\<close> before anything is written: when that conversion raises, the
  handler ends there and the rejection it leaves is handled by nothing.
\<close>

definition on_rejected :: "(string \<times> string) list \<Rightarrow> jsval \<Rightarrow> string list \<Rightarrow> jsval \<Rightarrow> handled" where
  "on_rejected res songId sources error =
     (let errorMessage = errorMessage_of error
      in if ToString_throws errorMessage then Unhandled conversion_error
         else Response (writeHead_end res 404 [(''Content-Type'', ''application/json'')]
                (JsonBody (stringify (JObj (failure_object songId sources errorMessage))))))"

text \<open>
  Lines 36 to 50: the \<^verbatim>\<open>.then\<close> handler. Line 37 builds its console line from
  \<^verbatim>\<open>${result.source}\<close> and \<^verbatim>\<open>${result.url}\<close> before anything is written.
  Reading \<^verbatim>\<open>result.source\<close> of \<^verbatim>\<open>undefined\<close> or \<^verbatim>\<open>null\<close> raises a
  \<^verbatim>\<open>TypeError\<close>, and so does a conversion that fails; the \<^verbatim>\<open>.catch\<close> chained
  behind receives it.
\<close>

definition on_resolved :: "(string \<times> string) list \<Rightarrow> jsval \<Rightarrow> string list \<Rightarrow> jsval \<Rightarrow> handled" where
  "on_resolved res songId sources result =
     (if nullish result
      then on_rejected res songId sources (TypeError (nullish_read_message result ''source''))
      else if ToString_throws (get_prop result ''source'') \<or>
              ToString_throws (get_prop result ''url'')
      then on_rejected res songId sources conversion_error
      else Response (writeHead_end res 200 [(''Content-Type'', ''application/json'')]
             (JsonBody (stringify (JObj (success_object songId sources result))))))"

definition settle :: "(string \<times> string) list \<Rightarrow> jsval \<Rightarrow> string list \<Rightarrow> outcome \<Rightarrow> handled" where
  "settle res songId sources out =
     (case out of
        Resolved result \<Rightarrow> on_resolved res songId sources result
      | Rejected error \<Rightarrow> on_rejected res songId sources error
      | Pending \<Rightarrow> NoResponse)"

text \<open>Lines 148 to 152: the body of the unknown-route response.\<close>

definition not_found_object :: "(string \<times> jsval) list" where
  "not_found_object =
     [(''error'', JStr ''Not found''),
      (''availableEndpoints'', JArr [JStr ''/'', JStr ''/match/{songId}''])]"

text \<open>
  Lines 14 to 154: the request listener. Of the lines written to the console, the
  conversions to a string that build them are modelled, not the output; line 33
  converts \<^verbatim>\<open>songId\<close>, a string or \<^verbatim>\<open>undefined\<close>, and joins an array of
  strings, which never raises.
\<close>

definition handler ::
  "(string \<Rightarrow> parsed_url) \<Rightarrow> (jsval \<Rightarrow> string list \<Rightarrow> outcome) \<Rightarrow> request \<Rightarrow> handled" where
  "handler url_parse match req =
     (let res = cors_headers in
      if method req = ''OPTIONS'' then Response (writeHead_end res 200 [] NoBody)
      else if startsWith (url req) ''/match/'' \<and> method req = ''GET'' then
        (let parsedUrl = url_parse (url req);
             songId = songId_of parsedUrl
         in case sources_of parsedUrl of
              Inl e \<Rightarrow> Uncaught e
            | Inr sources \<Rightarrow> settle res songId sources (match songId sources))
      else if url req = ''/'' \<and> method req = ''GET'' then
        Response (writeHead_end res 200 [(''Content-Type'', ''text/html; charset=utf-8'')]
          DocumentationPage)
      else Response (writeHead_end res 404 [(''Content-Type'', ''application/json'')]
             (JsonBody (stringify (JObj not_found_object)))))"

text \<open>
  Lines 97 to 103: the sources that the documentation page (and the README) list as
  supported.
\<close>

definition supported_sources :: "string list" where
  "supported_sources = [''qq'', ''kugou'', ''kuwo'', ''migu'', ''ytdlp'', ''bilivideo'', ''joox'']"

subsection \<open>A parser for the examples\<close>

text \<open>
  \<^verbatim>\<open>url.parse(u, true)\<close> on a request target made of a path, an optional \<^verbatim>\<open>?\<close> and
  \<^verbatim>\<open>key=value\<close> pairs joined by \<^verbatim>\<open>&\<close>, without percent escapes, \<^verbatim>\<open>+\<close> or
  characters that Node rewrites. A key given twice holds the array of its values.
\<close>

definition add_param :: "string \<Rightarrow> (string \<times> jsval) list \<Rightarrow> (string \<times> jsval) list" where
  "add_param kv q =
     (let k = takeWhile (\<lambda>c. c \<noteq> CHR ''='') kv;
          v = JStr (drop 1 (dropWhile (\<lambda>c. c \<noteq> CHR ''='') kv))
      in case map_of q k of
           None \<Rightarrow> q @ [(k, v)]
         | Some (JArr vs) \<Rightarrow> AList.update k (JArr (vs @ [v])) q
         | Some w \<Rightarrow> AList.update k (JArr [w, v]) q)"

definition plain_url_parse :: "string \<Rightarrow> parsed_url" where
  "plain_url_parse u =
     (let h = takeWhile (\<lambda>c. c \<noteq> CHR ''#'') u;
          search = dropWhile (\<lambda>c. c \<noteq> CHR ''?'') h
      in \<lparr>pathname = takeWhile (\<lambda>c. c \<noteq> CHR ''?'') h,
          query = fold add_param (filter (\<lambda>kv. kv \<noteq> []) (split_str (drop 1 search) ''&'')) []\<rparr>)"

subsection \<open>Reading what was sent\<close>

definition status_of :: "handled \<Rightarrow> nat option" where
  "status_of h = (case h of Response r \<Rightarrow> Some (status r) | _ \<Rightarrow> None)"

definition json_fields :: "handled \<Rightarrow> (string \<times> jsval) list" where
  "json_fields h =
     (case h of
        Response r \<Rightarrow> (case body r of JsonBody (JObj fs) \<Rightarrow> fs | _ \<Rightarrow> [])
      | _ \<Rightarrow> [])"

definition field_names :: "handled \<Rightarrow> string list" where
  "field_names h = map fst (json_fields h)"

text \<open>The entries of the \<^verbatim>\<open>details\<close> field of a body, when it holds a list.\<close>

definition details_entries :: "handled \<Rightarrow> jsval list option" where
  "details_entries h =
     (case map_of (json_fields h) ''details'' of Some (JArr xs) \<Rightarrow> Some xs | _ \<Rightarrow> None)"

section \<open>Process start\<close>

text \<open>
  \<^verbatim>\<open>process.env\<close> maps names to strings. Lines 2 to 8 assign five of its entries
  before anything is read from it.
\<close>

type_synonym env = "string \<rightharpoonup> string"

definition startup :: "env \<Rightarrow> env" where
  "startup e =
     e(''DEVELOPMENT'' \<mapsto> ''true'',
       ''ENABLE_LOCAL_VIP'' \<mapsto> ''true'',
       ''ENABLE_FLAC'' \<mapsto> ''true'',
       ''SELECT_MAX_BR'' \<mapsto> ''true'',
       ''FOLLOW_SOURCE_ORDER'' \<mapsto> ''false'')"

text \<open>Line 161: \<^verbatim>\<open>process.env.PORT || 3000\<close>, read after the assignments.\<close>

definition PORT :: "env \<Rightarrow> jsval" where
  "PORT e =
     (let p = (case startup e ''PORT'' of Some s \<Rightarrow> JStr s | None \<Rightarrow> JUndefined)
      in if truthy p then p else JNum 3000)"

section \<open>The ordered-fallback dispatch of the resolution engine\<close>

text \<open>
  Modelled from the spec: the Resolution Orchestrator's ordered-fallback strategy and
  the data it works on (sections 3, 4.1 and 4.4). Its code is
  \<^verbatim>\<open>./server/src/provider/match\<close>, which is not among the sources; only the call
  \<^verbatim>\<open>match(songId, sources)\<close> is.
\<close>

record candidate_stream =
  audio_url :: string
  bitrate :: int
  byte_size :: int
  checksum :: "string option"
  origin :: string

datatype cause = NotFound | Timeout | TransportError | BackendError

record failure =
  failed_source :: string
  failure_cause :: cause
  detail :: string

datatype adapter_result = Candidate candidate_stream | Failed failure

datatype resolution_result = Success candidate_stream | Exhausted "failure list"

text \<open>
  Modelled from the spec: a Source Adapter is the capability
  \<open>resolve(trackId) -> CandidateStream | Failure\<close>; the selected adapters come with their
  source identifiers, in priority order. The orchestrator invokes them one at a time:
  a Failure moves to the next adapter, a CandidateStream is the immediate winner.
  \<open>invoked\<close> records the sources whose adapter has been called, in call order.
\<close>

fun ordered_fallback ::
  "(string \<times> (string \<Rightarrow> adapter_result)) list \<Rightarrow> string \<Rightarrow> failure list \<Rightarrow> string list \<Rightarrow>
     resolution_result \<times> string list" where
  "ordered_fallback [] trackId failures invoked = (Exhausted failures, invoked)"
| "ordered_fallback ((src, resolve) # rest) trackId failures invoked =
     (case resolve trackId of
        Candidate c \<Rightarrow> (Success c, invoked @ [src])
      | Failed f \<Rightarrow> ordered_fallback rest trackId (failures @ [f]) (invoked @ [src]))"

definition resolve_in_order ::
  "(string \<times> (string \<Rightarrow> adapter_result)) list \<Rightarrow> string \<Rightarrow> resolution_result \<times> string list" where
  "resolve_in_order adapters trackId = ordered_fallback adapters trackId [] []"

section \<open>Examples\<close>

text \<open>
  The result that the README shows in its sample response, as \<^verbatim>\<open>match\<close> would
  fulfil its promise with it, and a lossless one.
\<close>

definition sample_result :: jsval where
  "sample_result =
     JObj [(''url'', JStr ''https://example.com/audio.mp3''),
           (''br'', JNum 128000),
           (''size'', JNum 4194304),
           (''md5'', JStr ''abc123''),
           (''source'', JStr ''qq'')]"

definition lossless_result :: jsval where
  "lossless_result =
     JObj [(''url'', JStr ''https://example.com/audio.flac''),
           (''br'', JNum 999000),
           (''size'', JNum 31457280),
           (''md5'', JStr ''def456''),
           (''source'', JStr ''kuwo'')]"

section \<open>Facts about the model\<close>

subsection \<open>Splitting and joining\<close>

lemma split_from_nonempty: "split_from sep cur s \<noteq> []"
  by (induction sep cur s rule: split_from.induct) auto

lemma join_Cons: "ys \<noteq> [] \<Longrightarrow> join (x # ys) sep = x @ sep @ join ys sep"
  by (cases ys) auto

lemma join_split_from: "join (split_from sep cur s) sep = cur @ s"
proof (induction sep cur s rule: split_from.induct)
  case (1 sep cur)
  then show ?case by simp
next
  case (2 sep cur c cs)
  show ?case
  proof (cases "sep \<noteq> [] \<and> startsWith (c # cs) sep")
    case True
    then have "sep @ drop (length sep) (c # cs) = c # cs"
      unfolding startsWith_def by (metis append_take_drop_id)
    with True 2 show ?thesis
      by (simp add: join_Cons split_from_nonempty)
  next
    case False
    with 2 show ?thesis by auto
  qed
qed

lemma join_split_str: "sep \<noteq> [] \<Longrightarrow> join (split_str s sep) sep = s"
  by (simp add: split_str_def join_split_from)

lemma split_from_single_free:
  "x \<notin> set cur \<Longrightarrow> t \<in> set (split_from [x] cur s) \<Longrightarrow> x \<notin> set t"
proof (induction "[x]" cur s arbitrary: t rule: split_from.induct)
  case (1 cur)
  then show ?case by simp
next
  case (2 cur c cs)
  then show ?case
    by (auto simp: startsWith_def split: if_splits)
qed

lemma split_from_no_occurrence:
  "\<not> includes_str s sep \<Longrightarrow> split_from sep cur s = [cur @ s]"
  by (induction s arbitrary: cur) auto

lemma split_from_leading_sep:
  "sep \<noteq> [] \<Longrightarrow> split_from sep [] (sep @ t) = [] # split_from sep [] t"
  by (cases sep) (simp_all add: startsWith_def)

subsection \<open>\<^verbatim>\<open>JSON.stringify\<close> on an object\<close>

lemma map_of_stringify_props:
  "distinct (map fst ps) \<Longrightarrow>
   map_of (stringify_props ps) k =
     (case map_of ps k of
        None \<Rightarrow> None
      | Some v \<Rightarrow> if v = JUndefined then None else Some (stringify v))"
proof (induction ps arbitrary: k)
  case Nil
  then show ?case by simp
next
  case (Cons p ps)
  obtain k' v' where p: "p = (k', v')" by (cases p)
  from Cons.prems p have "map_of ps k' = None"
    by (simp add: map_of_eq_None_iff)
  with Cons p show ?case by auto
qed

lemma stringify_JNum_iff: "stringify v = JNum n \<longleftrightarrow> v = JNum n"
  by (cases v) auto

subsection \<open>The request listener, route by route\<close>

lemma handler_match_route:
  assumes "method req = ''GET''" and "startsWith (url req) ''/match/''"
    and "sources_of (url_parse (url req)) = Inr sources"
  shows "handler url_parse match req =
           settle cors_headers (songId_of (url_parse (url req))) sources
             (match (songId_of (url_parse (url req))) sources)"
  using assms by (simp add: handler_def Let_def)

lemma cors_headers_list:
  "cors_headers =
     [(''Access-Control-Allow-Origin'', ''*''),
      (''Access-Control-Allow-Methods'', ''GET, OPTIONS''),
      (''Access-Control-Allow-Headers'', ''Content-Type'')]"
  by (simp add: cors_headers_def setHeader_def)

lemma status_writeHead_end: "status (writeHead_end res st hdrs b) = st"
  by (simp add: writeHead_end_def)

lemma body_writeHead_end: "body (writeHead_end res st hdrs b) = b"
  by (simp add: writeHead_end_def)


lemma falsy_converts: "\<not> truthy v \<Longrightarrow> \<not> ToString_throws v"
  by (cases v) auto

lemma errorMessage_of_message:
  "errorMessage_of error =
     (if truthy (get_prop error ''message'') then get_prop error ''message''
      else JStr ''Unknown error'')"
  by (cases error) (auto simp: errorMessage_of_def Let_def)

lemma ToString_throws_errorMessage:
  "ToString_throws (errorMessage_of error) = ToString_throws (get_prop error ''message'')"
  using falsy_converts [of "get_prop error ''message''"]
  by (auto simp: errorMessage_of_message)

lemma on_rejected_sent:
  "\<not> ToString_throws (get_prop error ''message'') \<Longrightarrow>
   on_rejected res songId sources error =
     Response (writeHead_end res 404 [(''Content-Type'', ''application/json'')]
       (JsonBody (JObj (stringify_props
          (failure_object songId sources (errorMessage_of error))))))"
  by (simp add: on_rejected_def Let_def ToString_throws_errorMessage)

lemma status_on_rejected:
  "status_of (on_rejected res songId sources error) = None \<or>
   status_of (on_rejected res songId sources error) = Some 404"
  by (simp add: on_rejected_def Let_def status_of_def writeHead_end_def)

lemma settle_resolved:
  "\<not> nullish result \<Longrightarrow> \<not> ToString_throws (get_prop result ''source'') \<Longrightarrow>
   \<not> ToString_throws (get_prop result ''url'') \<Longrightarrow>
   settle res songId sources (Resolved result) =
     Response (writeHead_end res 200 [(''Content-Type'', ''application/json'')]
       (JsonBody (JObj (stringify_props (success_object songId sources result)))))"
  by (simp add: settle_def on_resolved_def)

lemma settle_rejected:
  "\<not> ToString_throws (get_prop error ''message'') \<Longrightarrow>
   settle res songId sources (Rejected error) =
     Response (writeHead_end res 404 [(''Content-Type'', ''application/json'')]
       (JsonBody (JObj (stringify_props
          (failure_object songId sources (errorMessage_of error))))))"
  by (simp add: settle_def on_rejected_sent)

lemma settle_status_200:
  assumes "status_of (settle res songId sources out) = Some 200"
  shows "\<exists>result. out = Resolved result \<and> \<not> nullish result \<and>
           \<not> ToString_throws (get_prop result ''source'') \<and>
           \<not> ToString_throws (get_prop result ''url'')"
proof (cases out)
  case (Resolved result)
  show ?thesis
  proof (cases "nullish result")
    case True
    with Resolved have "settle res songId sources out =
        on_rejected res songId sources (TypeError (nullish_read_message result ''source''))"
      by (simp add: settle_def on_resolved_def)
    with assms status_on_rejected [of res songId sources
        "TypeError (nullish_read_message result ''source'')"]
    show ?thesis by simp
  next
    case False
    show ?thesis
    proof (cases "ToString_throws (get_prop result ''source'') \<or>
                  ToString_throws (get_prop result ''url'')")
      case True
      with Resolved \<open>\<not> nullish result\<close>
      have "settle res songId sources out = on_rejected res songId sources conversion_error"
        by (simp add: settle_def on_resolved_def)
      with assms status_on_rejected [of res songId sources conversion_error]
      show ?thesis by simp
    next
      case False
      with Resolved \<open>\<not> nullish result\<close> show ?thesis by simp
    qed
  qed
next
  case (Rejected error)
  with assms status_on_rejected [of res songId sources error] show ?thesis
    by (auto simp: settle_def)
next
  case Pending
  with assms show ?thesis by (simp add: settle_def status_of_def)
qed

lemma stringify_props_Cons:
  "stringify_props ((k, v) # fs) =
     (if v = JUndefined then [] else [(k, stringify v)]) @ stringify_props fs"
  by simp

lemma stringify_elems_strings: "stringify_elems (map JStr xs) = map JStr xs"
  by (induction xs) auto

lemma stringify_songId_of: "stringify (songId_of p) = songId_of p"
  by (simp add: songId_of_def at_index_def)

lemma success_object_names:
  "map fst (success_object songId sources result) =
     [''success'', ''songId'', ''requestedSources'', ''audioUrl'', ''bitrate'',
      ''size'', ''md5'', ''source'', ''type'']"
  by (simp add: success_object_def)

lemma success_object_distinct: "distinct (map fst (success_object songId sources result))"
  by (simp add: success_object_names)

lemma success_object_type:
  "map_of (success_object songId sources result) ''type'' =
     Some (JStr (if get_prop result ''br'' = JNum 999000 then ''flac'' else ''mp3''))"
  by (simp add: success_object_def)

lemma success_object_bitrate:
  "map_of (success_object songId sources result) ''bitrate'' = Some (get_prop result ''br'')"
  by (simp add: success_object_def)

lemma failure_object_distinct:
  "distinct (map fst (failure_object songId sources errorMessage))"
  by (simp add: failure_object_def)

lemma errorMessage_defined: "errorMessage_of error \<noteq> JUndefined"
  by (auto simp: errorMessage_of_def Let_def)

lemma plain_sources_of_sample:
  "sources_of (plain_url_parse ''/match/418602084?sources=qq,kugou'') = Inr [''qq'', ''kugou'']"
  by (simp add: sources_of_def plain_url_parse_def add_param_def split_str_def startsWith_def)

lemma plain_songId_of_sample:
  "songId_of (plain_url_parse ''/match/418602084?sources=qq,kugou'') = JStr ''418602084''"
  by (simp add: songId_of_def plain_url_parse_def split_str_def startsWith_def at_index_def)

lemma plain_sources_of_bare:
  "sources_of (plain_url_parse ''/match/418602084'') = Inr default_sources"
  by (simp add: sources_of_def plain_url_parse_def add_param_def split_str_def startsWith_def)

lemma plain_songId_of_bare:
  "songId_of (plain_url_parse ''/match/418602084'') = JStr ''418602084''"
  by (simp add: songId_of_def plain_url_parse_def split_str_def startsWith_def at_index_def)


subsection \<open>The conversions of lines 37 and 53\<close>

text \<open>
  A result whose \<^verbatim>\<open>source\<close> does not convert to a string: line 37 raises, the
  \<^verbatim>\<open>.catch\<close> handler answers 404 and the body has no \<^verbatim>\<open>type\<close>.
\<close>

lemma unconvertible_source_example:
  "status_of (handler plain_url_parse
       (\<lambda>songId sources. Resolved (JObj [(''url'', JStr ''u''), (''br'', JNum 999000),
                                          (''source'', JObj [(''toString'', JNum 1)])]))
       \<lparr>method = ''GET'', url = ''/match/418602084''\<rparr>) = Some 404 \<and>
   map_of (json_fields (handler plain_url_parse
       (\<lambda>songId sources. Resolved (JObj [(''url'', JStr ''u''), (''br'', JNum 999000),
                                          (''source'', JObj [(''toString'', JNum 1)])]))
       \<lparr>method = ''GET'', url = ''/match/418602084''\<rparr>)) ''type'' = None \<and>
   map_of (json_fields (handler plain_url_parse
       (\<lambda>songId sources. Resolved (JObj [(''url'', JStr ''u''), (''br'', JNum 999000),
                                          (''source'', JObj [(''toString'', JNum 1)])]))
       \<lparr>method = ''GET'', url = ''/match/418602084''\<rparr>)) ''details'' =
     Some (JStr ''Cannot convert object to primitive value'')"
  by (simp add: handler_def startsWith_def plain_sources_of_bare plain_songId_of_bare
      settle_def on_resolved_def on_rejected_def errorMessage_of_def Let_def
      conversion_error_def TypeError_def failure_object_def default_sources_def
      status_of_def json_fields_def writeHead_end_def)

text \<open>
  A rejection whose \<^verbatim>\<open>message\<close> does not convert to a string: line 53 raises inside
  the \<^verbatim>\<open>.catch\<close> handler and no response is sent.
\<close>

lemma unconvertible_message_example:
  "handler plain_url_parse
       (\<lambda>songId sources. Rejected (JObj [(''message'', JObj [(''toString'', JNum 1)])]))
       \<lparr>method = ''GET'', url = ''/match/418602084''\<rparr> = Unhandled conversion_error"
  by (simp add: handler_def startsWith_def plain_sources_of_bare plain_songId_of_bare
      settle_def on_rejected_def errorMessage_of_def Let_def)

section \<open>The claims\<close>

subsection \<open>C1: the success body\<close>


text \<open>
  Claim C1, as amended. When \<^verbatim>\<open>match\<close> fulfils its promise with a value other than
  \<^verbatim>\<open>undefined\<close> and \<^verbatim>\<open>null\<close> whose \<^verbatim>\<open>source\<close> and \<^verbatim>\<open>url\<close> convert to a
  string, the response has status 200 and its JSON body holds, in this order,
  \<^verbatim>\<open>success\<close> with the value \<^verbatim>\<open>true\<close>, \<^verbatim>\<open>songId\<close> with the identifier,
  \<^verbatim>\<open>requestedSources\<close> with the list of sources, \<^verbatim>\<open>audioUrl\<close>, \<^verbatim>\<open>bitrate\<close>,
  \<^verbatim>\<open>size\<close>, \<^verbatim>\<open>md5\<close> and \<^verbatim>\<open>source\<close> with the result's \<^verbatim>\<open>url\<close>, \<^verbatim>\<open>br\<close>,
  \<^verbatim>\<open>size\<close>, \<^verbatim>\<open>md5\<close> and \<^verbatim>\<open>source\<close>, and \<^verbatim>\<open>type\<close>; a field whose value is
  \<^verbatim>\<open>undefined\<close> is left out, and there is no other field. The track identifier is
  named \<^verbatim>\<open>songId\<close> and the checksum \<^verbatim>\<open>md5\<close>.
\<close>

theorem success_body_fields:
  assumes "method req = ''GET''" and "startsWith (url req) ''/match/''"
    and "sources_of (url_parse (url req)) = Inr sources"
    and "match (songId_of (url_parse (url req))) sources = Resolved result"
    and "\<not> nullish result"
    and "\<not> ToString_throws (get_prop result ''source'')"
    and "\<not> ToString_throws (get_prop result ''url'')"
  shows "status_of (handler url_parse match req) = Some 200 \<and>
         json_fields (handler url_parse match req) =
           [(''success'', JBool True)] @
           (if songId_of (url_parse (url req)) = JUndefined then []
            else [(''songId'', songId_of (url_parse (url req)))]) @
           [(''requestedSources'', JArr (map JStr sources))] @
           (if get_prop result ''url'' = JUndefined then []
            else [(''audioUrl'', stringify (get_prop result ''url''))]) @
           (if get_prop result ''br'' = JUndefined then []
            else [(''bitrate'', stringify (get_prop result ''br''))]) @
           (if get_prop result ''size'' = JUndefined then []
            else [(''size'', stringify (get_prop result ''size''))]) @
           (if get_prop result ''md5'' = JUndefined then []
            else [(''md5'', stringify (get_prop result ''md5''))]) @
           (if get_prop result ''source'' = JUndefined then []
            else [(''source'', stringify (get_prop result ''source''))]) @
           [(''type'', JStr (if get_prop result ''br'' = JNum 999000 then ''flac'' else ''mp3''))]"
proof -
  let ?h = "handler url_parse match req"
  let ?o = "success_object (songId_of (url_parse (url req))) sources result"
  have h: "?h = Response (writeHead_end cors_headers 200
             [(''Content-Type'', ''application/json'')] (JsonBody (JObj (stringify_props ?o))))"
    using assms by (simp add: handler_match_route settle_resolved)
  have st: "status_of ?h = Some 200"
    by (simp add: h status_of_def status_writeHead_end)
  have f: "json_fields ?h = stringify_props ?o"
    by (simp add: h json_fields_def body_writeHead_end)
  have "stringify_props ?o =
           (if JBool True = JUndefined then [] else [(''success'', stringify (JBool True))]) @
           (if songId_of (url_parse (url req)) = JUndefined then []
            else [(''songId'', stringify (songId_of (url_parse (url req))))]) @
           (if JArr (map JStr sources) = JUndefined then []
            else [(''requestedSources'', stringify (JArr (map JStr sources)))]) @
           (if get_prop result ''url'' = JUndefined then []
            else [(''audioUrl'', stringify (get_prop result ''url''))]) @
           (if get_prop result ''br'' = JUndefined then []
            else [(''bitrate'', stringify (get_prop result ''br''))]) @
           (if get_prop result ''size'' = JUndefined then []
            else [(''size'', stringify (get_prop result ''size''))]) @
           (if get_prop result ''md5'' = JUndefined then []
            else [(''md5'', stringify (get_prop result ''md5''))]) @
           (if get_prop result ''source'' = JUndefined then []
            else [(''source'', stringify (get_prop result ''source''))]) @
           (if JStr (if get_prop result ''br'' = JNum 999000 then ''flac'' else ''mp3'')
                 = JUndefined then []
            else [(''type'', stringify
                    (JStr (if get_prop result ''br'' = JNum 999000 then ''flac'' else ''mp3'')))]) @
           stringify_props []"
    unfolding success_object_def stringify_props_Cons by (rule refl)
  also have "\<dots> =
           [(''success'', JBool True)] @
           (if songId_of (url_parse (url req)) = JUndefined then []
            else [(''songId'', songId_of (url_parse (url req)))]) @
           [(''requestedSources'', JArr (map JStr sources))] @
           (if get_prop result ''url'' = JUndefined then []
            else [(''audioUrl'', stringify (get_prop result ''url''))]) @
           (if get_prop result ''br'' = JUndefined then []
            else [(''bitrate'', stringify (get_prop result ''br''))]) @
           (if get_prop result ''size'' = JUndefined then []
            else [(''size'', stringify (get_prop result ''size''))]) @
           (if get_prop result ''md5'' = JUndefined then []
            else [(''md5'', stringify (get_prop result ''md5''))]) @
           (if get_prop result ''source'' = JUndefined then []
            else [(''source'', stringify (get_prop result ''source''))]) @
           [(''type'', JStr (if get_prop result ''br'' = JNum 999000 then ''flac'' else ''mp3''))]"
    by (simp only: stringify_songId_of stringify.simps stringify_elems_strings
          jsval.distinct if_False stringify_props.simps append_Nil2)
  finally show ?thesis
    using st f by simp
qed

text \<open>
  Witness of C1: the README's sample, \<^verbatim>\<open>GET /match/418602084?sources=qq,kugou\<close>, where
  every value is defined and all nine fields are present.
\<close>


theorem success_body_fields_witness:
  "status_of (handler plain_url_parse (\<lambda>songId sources. Resolved sample_result)
       \<lparr>method = ''GET'', url = ''/match/418602084?sources=qq,kugou''\<rparr>) = Some 200 \<and>
   json_fields (handler plain_url_parse (\<lambda>songId sources. Resolved sample_result)
       \<lparr>method = ''GET'', url = ''/match/418602084?sources=qq,kugou''\<rparr>) =
     [(''success'', JBool True),
      (''songId'', JStr ''418602084''),
      (''requestedSources'', JArr [JStr ''qq'', JStr ''kugou'']),
      (''audioUrl'', JStr ''https://example.com/audio.mp3''),
      (''bitrate'', JNum 128000),
      (''size'', JNum 4194304),
      (''md5'', JStr ''abc123''),
      (''source'', JStr ''qq''),
      (''type'', JStr ''mp3'')]"
proof -
  let ?req = "\<lparr>method = ''GET'', url = ''/match/418602084?sources=qq,kugou''\<rparr>"
  let ?match = "\<lambda>(songId :: jsval) (sources :: string list). Resolved sample_result"
  have 1: "method ?req = ''GET''" by simp
  have 2: "startsWith (url ?req) ''/match/''" by (simp add: startsWith_def)
  have 3: "sources_of (plain_url_parse (url ?req)) = Inr [''qq'', ''kugou'']"
    by (simp add: plain_sources_of_sample)
  have 4: "?match (songId_of (plain_url_parse (url ?req))) [''qq'', ''kugou''] = Resolved sample_result"
    by simp
  have 5: "\<not> nullish sample_result" by (simp add: sample_result_def)
  have 6: "\<not> ToString_throws (get_prop sample_result ''source'')"
    by (simp add: sample_result_def)
  have 7: "\<not> ToString_throws (get_prop sample_result ''url'')"
    by (simp add: sample_result_def)
  show ?thesis
    using success_body_fields [of ?req plain_url_parse "[''qq'', ''kugou'']" ?match sample_result,
        OF 1 2 3 4 5 6 7]
    by (simp add: sample_result_def plain_songId_of_sample)
qed

text \<open>
  Counterexample to C1 as stated: on the same request the body has no field named
  \<^verbatim>\<open>trackId\<close> and none named \<^verbatim>\<open>checksum\<close>.
\<close>

theorem success_body_names_counterexample:
  "status_of (handler plain_url_parse (\<lambda>songId sources. Resolved sample_result)
       \<lparr>method = ''GET'', url = ''/match/418602084?sources=qq,kugou''\<rparr>) = Some 200 \<and>
   ''trackId'' \<notin> set (field_names (handler plain_url_parse (\<lambda>songId sources. Resolved sample_result)
       \<lparr>method = ''GET'', url = ''/match/418602084?sources=qq,kugou''\<rparr>)) \<and>
   ''checksum'' \<notin> set (field_names (handler plain_url_parse (\<lambda>songId sources. Resolved sample_result)
       \<lparr>method = ''GET'', url = ''/match/418602084?sources=qq,kugou''\<rparr>))"
  by (simp add: handler_def startsWith_def plain_sources_of_sample plain_songId_of_sample
      settle_def on_resolved_def sample_result_def status_of_def field_names_def json_fields_def
      writeHead_end_def success_object_def)

subsection \<open>C9: the type field\<close>


text \<open>
  Claim C9. In every success response, that is every response with status 200 to a GET
  request on \<^verbatim>\<open>/match/\<close>, the \<^verbatim>\<open>type\<close> field is \<^verbatim>\<open>flac\<close> exactly when the
  reported \<^verbatim>\<open>bitrate\<close> is the number 999000, and \<^verbatim>\<open>mp3\<close> in every other case
  (also when no bitrate is reported).
\<close>

theorem type_from_bitrate:
  assumes "method req = ''GET''" and "startsWith (url req) ''/match/''"
    and "status_of (handler url_parse match req) = Some 200"
  shows "map_of (json_fields (handler url_parse match req)) ''type'' =
           Some (JStr (if map_of (json_fields (handler url_parse match req)) ''bitrate''
                            = Some (JNum 999000)
                       then ''flac'' else ''mp3''))"
proof -
  let ?h = "handler url_parse match req"
  let ?id = "songId_of (url_parse (url req))"
  obtain sources where src: "sources_of (url_parse (url req)) = Inr sources"
  proof (cases "sources_of (url_parse (url req))")
    case (Inl e)
    with assms have False by (simp add: handler_def Let_def status_of_def)
    then show ?thesis ..
  next
    case (Inr sources)
    with that show ?thesis .
  qed
  have route: "?h = settle cors_headers ?id sources (match ?id sources)"
    using assms(1,2) src by (rule handler_match_route)
  with assms(3) settle_status_200 [of cors_headers ?id sources "match ?id sources"]
  obtain result where res: "match ?id sources = Resolved result" "\<not> nullish result"
      "\<not> ToString_throws (get_prop result ''source'')"
      "\<not> ToString_throws (get_prop result ''url'')"
    by auto
  let ?o = "success_object ?id sources result"
  have h: "json_fields ?h = stringify_props ?o"
    using route res by (simp add: settle_resolved json_fields_def body_writeHead_end)
  have t: "map_of (stringify_props ?o) ''type'' =
      Some (JStr (if get_prop result ''br'' = JNum 999000 then ''flac'' else ''mp3''))"
    by (simp add: map_of_stringify_props success_object_distinct success_object_type)
  have b: "map_of (stringify_props ?o) ''bitrate'' = Some (JNum 999000)
        \<longleftrightarrow> get_prop result ''br'' = JNum 999000"
    by (auto simp: map_of_stringify_props success_object_distinct success_object_bitrate
          stringify_JNum_iff)
  show ?thesis
    unfolding h t b by simp
qed

text \<open>Witness of C9: a result with bitrate 999000 is reported as \<^verbatim>\<open>flac\<close>.\<close>


theorem type_from_bitrate_witness:
  "status_of (handler plain_url_parse (\<lambda>songId sources. Resolved lossless_result)
       \<lparr>method = ''GET'', url = ''/match/418602084''\<rparr>) = Some 200 \<and>
   map_of (json_fields (handler plain_url_parse (\<lambda>songId sources. Resolved lossless_result)
       \<lparr>method = ''GET'', url = ''/match/418602084''\<rparr>)) ''bitrate'' = Some (JNum 999000) \<and>
   map_of (json_fields (handler plain_url_parse (\<lambda>songId sources. Resolved lossless_result)
       \<lparr>method = ''GET'', url = ''/match/418602084''\<rparr>)) ''type'' = Some (JStr ''flac'')"
proof -
  let ?req = "\<lparr>method = ''GET'', url = ''/match/418602084''\<rparr>"
  let ?match = "\<lambda>(songId :: jsval) (sources :: string list). Resolved lossless_result"
  let ?h = "handler plain_url_parse ?match ?req"
  have 1: "method ?req = ''GET''" by simp
  have 2: "startsWith (url ?req) ''/match/''" by (simp add: startsWith_def)
  have 3: "status_of ?h = Some 200"
    by (simp add: handler_def startsWith_def plain_sources_of_bare plain_songId_of_bare
      settle_def on_resolved_def lossless_result_def status_of_def writeHead_end_def)
  have b: "map_of (json_fields ?h) ''bitrate'' = Some (JNum 999000)"
    by (simp add: handler_def startsWith_def plain_sources_of_bare plain_songId_of_bare
      settle_def on_resolved_def lossless_result_def json_fields_def
      writeHead_end_def success_object_def)
  show ?thesis
    using type_from_bitrate [of ?req plain_url_parse ?match, OF 1 2 3] 3 b
    by simp
qed

subsection \<open>C10: the CORS headers\<close>

text \<open>
  Claim C10. Every response that the server sends, on whatever route and with whatever
  status, carries the three CORS headers set at the top of the listener.
\<close>

theorem cors_on_every_response:
  assumes "handler url_parse match req = Response r"
  shows "map_of (headers r) ''Access-Control-Allow-Origin'' = Some ''*'' \<and>
         map_of (headers r) ''Access-Control-Allow-Methods'' = Some ''GET, OPTIONS'' \<and>
         map_of (headers r) ''Access-Control-Allow-Headers'' = Some ''Content-Type''"
proof -
  have w: "\<And>st hdrs b v. hdrs = [] \<or> hdrs = [(''Content-Type'', v)] \<Longrightarrow>
     map_of (headers (writeHead_end cors_headers st hdrs b)) ''Access-Control-Allow-Origin'' = Some ''*'' \<and>
     map_of (headers (writeHead_end cors_headers st hdrs b)) ''Access-Control-Allow-Methods'' = Some ''GET, OPTIONS'' \<and>
     map_of (headers (writeHead_end cors_headers st hdrs b)) ''Access-Control-Allow-Headers'' = Some ''Content-Type''"
    by (auto simp: writeHead_end_def cors_headers_list setHeader_def)
  from assms obtain st hdrs b v where "r = writeHead_end cors_headers st hdrs b"
    and "hdrs = [] \<or> hdrs = [(''Content-Type'', v)]"
    by (auto simp: handler_def Let_def settle_def on_resolved_def on_rejected_def
             split: if_splits sum.splits outcome.splits)
  then show ?thesis using w by blast
qed

text \<open>Witness of C10: the response to an unknown route.\<close>

theorem cors_on_every_response_witness:
  "handler plain_url_parse (\<lambda>songId sources. Rejected JUndefined)
       \<lparr>method = ''GET'', url = ''/nothing''\<rparr> =
     Response \<lparr>status = 404,
       headers = [(''Access-Control-Allow-Origin'', ''*''),
                  (''Access-Control-Allow-Methods'', ''GET, OPTIONS''),
                  (''Access-Control-Allow-Headers'', ''Content-Type''),
                  (''Content-Type'', ''application/json'')],
       body = JsonBody (JObj [(''error'', JStr ''Not found''),
                (''availableEndpoints'', JArr [JStr ''/'', JStr ''/match/{songId}''])])\<rparr> \<and>
   map_of [(''Access-Control-Allow-Origin'', ''*''),
           (''Access-Control-Allow-Methods'', ''GET, OPTIONS''),
           (''Access-Control-Allow-Headers'', ''Content-Type''),
           (''Content-Type'', ''application/json'')] ''Access-Control-Allow-Origin'' = Some ''*''"
proof -
  let ?r = "\<lparr>status = 404,
       headers = [(''Access-Control-Allow-Origin'', ''*''),
                  (''Access-Control-Allow-Methods'', ''GET, OPTIONS''),
                  (''Access-Control-Allow-Headers'', ''Content-Type''),
                  (''Content-Type'', ''application/json'')],
       body = JsonBody (JObj [(''error'', JStr ''Not found''),
                (''availableEndpoints'', JArr [JStr ''/'', JStr ''/match/{songId}''])])\<rparr>"
  have h: "handler plain_url_parse (\<lambda>songId sources. Rejected JUndefined)
       \<lparr>method = ''GET'', url = ''/nothing''\<rparr> = Response ?r"
    by (simp add: handler_def startsWith_def cors_headers_list writeHead_end_def setHeader_def
        not_found_object_def)
  show ?thesis
    using h cors_on_every_response [OF h] by simp
qed

subsection \<open>More facts about the routes\<close>

lemma sources_of_string:
  "map_of (query p) ''sources'' = Some (JStr s) \<Longrightarrow> s \<noteq> [] \<Longrightarrow>
   sources_of p = Inr (split_str s '','')"
  by (simp add: sources_of_def)

lemma sources_of_absent:
  "map_of (query p) ''sources'' = None \<Longrightarrow> sources_of p = Inr default_sources"
  by (simp add: sources_of_def)

lemma songId_of_rest:
  "pathname p = ''/match/'' @ t \<Longrightarrow> \<not> includes_str t ''/match/'' \<Longrightarrow> songId_of p = JStr t"
  using split_from_leading_sep [of "''/match/''" t]
  by (simp add: songId_of_def split_str_def split_from_no_occurrence at_index_def)


lemma status_settle_cases:
  "status_of (settle res songId sources out) = None \<or>
   status_of (settle res songId sources out) = Some 200 \<or>
   status_of (settle res songId sources out) = Some 404"
proof (cases out)
  case (Resolved result)
  then show ?thesis
    using status_on_rejected [of res songId sources
            "TypeError (nullish_read_message result ''source'')"]
      status_on_rejected [of res songId sources conversion_error]
    by (auto simp: settle_def on_resolved_def status_of_def status_writeHead_end)
next
  case (Rejected error)
  then show ?thesis
    using status_on_rejected [of res songId sources error] by (auto simp: settle_def)
next
  case Pending
  then show ?thesis by (simp add: settle_def status_of_def)
qed

lemma status_handler_cases:
  "status_of (handler url_parse match req) = None \<or>
   status_of (handler url_parse match req) = Some 200 \<or>
   status_of (handler url_parse match req) = Some 404"
proof (cases "method req \<noteq> ''OPTIONS'' \<and> startsWith (url req) ''/match/'' \<and> method req = ''GET''")
  case True
  show ?thesis
  proof (cases "sources_of (url_parse (url req))")
    case (Inl e)
    with True show ?thesis by (simp add: handler_def Let_def status_of_def)
  next
    case (Inr sources)
    with True show ?thesis
      using status_settle_cases [of cors_headers "songId_of (url_parse (url req))" sources]
      by (simp add: handler_def Let_def)
  qed
next
  case False
  then show ?thesis
    by (auto simp: handler_def Let_def status_of_def status_writeHead_end)
qed

subsection \<open>C2: the resolution endpoint\<close>


text \<open>
  Claim C2, as amended. The resolution endpoint is \<^verbatim>\<open>GET /match/{songId}\<close>: for every
  GET request whose URL starts with \<^verbatim>\<open>/match/\<close>, whatever its query, the track
  identifier given to \<^verbatim>\<open>match\<close> is what follows \<^verbatim>\<open>/match/\<close> in the parsed path
  (when \<^verbatim>\<open>/match/\<close> does not occur in it again), and a non-empty \<^verbatim>\<open>sources\<close> query
  parameter is split at its commas into the list given to \<^verbatim>\<open>match\<close>, the tokens in
  their order: joining them with commas gives the parameter back, and no token holds a
  comma.
\<close>

theorem match_endpoint:
  assumes "method req = ''GET''" and "startsWith (url req) ''/match/''"
    and "pathname (url_parse (url req)) = ''/match/'' @ t"
    and "\<not> includes_str t ''/match/''"
  shows "(\<forall>sources. sources_of (url_parse (url req)) = Inr sources \<longrightarrow>
            handler url_parse match req =
              settle cors_headers (JStr t) sources (match (JStr t) sources)) \<and>
         (\<forall>s. map_of (query (url_parse (url req))) ''sources'' = Some (JStr s) \<and> s \<noteq> [] \<longrightarrow>
            handler url_parse match req =
              settle cors_headers (JStr t) (split_str s '','')
                (match (JStr t) (split_str s '','')) \<and>
            join (split_str s '','') '','' = s \<and>
            (\<forall>tok \<in> set (split_str s '',''). CHR '','' \<notin> set tok))"
proof -
  have any: "handler url_parse match req =
              settle cors_headers (JStr t) sources (match (JStr t) sources)"
    if "sources_of (url_parse (url req)) = Inr sources" for sources
    using assms that by (simp add: handler_match_route songId_of_rest)
  have "handler url_parse match req =
           settle cors_headers (JStr t) (split_str s '','') (match (JStr t) (split_str s '','')) \<and>
         join (split_str s '','') '','' = s \<and>
         (\<forall>tok \<in> set (split_str s '',''). CHR '','' \<notin> set tok)"
    if "map_of (query (url_parse (url req))) ''sources'' = Some (JStr s)" and "s \<noteq> []" for s
  proof -
    have "handler url_parse match req =
           settle cors_headers (JStr t) (split_str s '','') (match (JStr t) (split_str s '',''))"
      using that by (intro any) (simp add: sources_of_string)
    moreover have "join (split_str s '','') '','' = s"
      by (simp add: join_split_str)
    moreover have "\<forall>tok \<in> set (split_str s '',''). CHR '','' \<notin> set tok"
      using split_from_single_free [of "CHR '',''" "[]" _ s]
      by (auto simp: split_str_def)
    ultimately show ?thesis by blast
  qed
  with any show ?thesis by blast
qed

text \<open>Witness of C2: \<^verbatim>\<open>GET /match/418602084?sources=qq,kugou\<close>.\<close>

theorem match_endpoint_witness:
  "handler plain_url_parse
       (\<lambda>songId sources. if songId = JStr ''418602084'' \<and> sources = [''qq'', ''kugou'']
                          then Resolved sample_result else Pending)
       \<lparr>method = ''GET'', url = ''/match/418602084?sources=qq,kugou''\<rparr> =
     settle cors_headers (JStr ''418602084'') [''qq'', ''kugou''] (Resolved sample_result) \<and>
   join [''qq'', ''kugou''] '','' = ''qq,kugou''"
proof -
  let ?req = "\<lparr>method = ''GET'', url = ''/match/418602084?sources=qq,kugou''\<rparr>"
  let ?match = "\<lambda>songId sources. if songId = JStr ''418602084'' \<and> sources = [''qq'', ''kugou'']
                          then Resolved sample_result else Pending"
  have 1: "method ?req = ''GET''" by simp
  have 2: "startsWith (url ?req) ''/match/''" by (simp add: startsWith_def)
  have 3: "pathname (plain_url_parse (url ?req)) = ''/match/'' @ ''418602084''"
    by (simp add: plain_url_parse_def)
  have 4: "\<not> includes_str ''418602084'' ''/match/''" by (simp add: startsWith_def)
  have 5: "map_of (query (plain_url_parse (url ?req))) ''sources'' = Some (JStr ''qq,kugou'')
           \<and> ''qq,kugou'' \<noteq> []"
    by (simp add: plain_url_parse_def add_param_def split_str_def startsWith_def)
  have s: "split_str ''qq,kugou'' '','' = [''qq'', ''kugou'']"
    by (simp add: split_str_def startsWith_def)
  from match_endpoint [of ?req plain_url_parse "''418602084''" ?match, OF 1 2 3 4] 5
  have "handler plain_url_parse ?match ?req =
          settle cors_headers (JStr ''418602084'') (split_str ''qq,kugou'' '','')
            (?match (JStr ''418602084'') (split_str ''qq,kugou'' '','')) \<and>
        join (split_str ''qq,kugou'' '','') '','' = ''qq,kugou''"
    by blast
  then show ?thesis by (simp add: s)
qed

text \<open>
  Counterexample to C2 as stated: \<^verbatim>\<open>GET /418602084\<close>, the track identifier as the
  path itself, is an unknown route. The answer is 404 \<^verbatim>\<open>Not found\<close> even when
  \<^verbatim>\<open>match\<close> would resolve every track.
\<close>

theorem bare_track_path_counterexample:
  "status_of (handler plain_url_parse (\<lambda>songId sources. Resolved sample_result)
       \<lparr>method = ''GET'', url = ''/418602084''\<rparr>) = Some 404 \<and>
   map_of (json_fields (handler plain_url_parse (\<lambda>songId sources. Resolved sample_result)
       \<lparr>method = ''GET'', url = ''/418602084''\<rparr>)) ''error'' = Some (JStr ''Not found'')"
  by (simp add: handler_def startsWith_def status_of_def json_fields_def writeHead_end_def
      not_found_object_def)

subsection \<open>C3: no validation in the server\<close>


text \<open>
  Claim C3, as amended. No response of the server, on any route, has status 400, and
  the server rejects no resolution request itself: for every GET request on
  \<^verbatim>\<open>/match/\<close>, also one whose track identifier is empty or whose source list holds a
  token that names no source, \<^verbatim>\<open>match\<close> is called with the identifier and the tokens
  as parsed and decides the response; when it rejects with a reason whose
  \<^verbatim>\<open>message\<close> converts to a string (or with none), the status is 404.
\<close>

theorem no_request_validation:
  "status_of (handler url_parse match req) \<noteq> Some 400 \<and>
   (method req = ''GET'' \<and> startsWith (url req) ''/match/'' \<and>
    sources_of (url_parse (url req)) = Inr sources \<longrightarrow>
      handler url_parse match req =
        settle cors_headers (songId_of (url_parse (url req))) sources
          (match (songId_of (url_parse (url req))) sources) \<and>
      (\<forall>error. match (songId_of (url_parse (url req))) sources = Rejected error \<and>
                \<not> ToString_throws (get_prop error ''message'') \<longrightarrow>
         status_of (handler url_parse match req) = Some 404))"
proof -
  have "status_of (handler url_parse match req) \<noteq> Some 400"
    using status_handler_cases [of url_parse match req] by auto
  moreover have "handler url_parse match req =
        settle cors_headers (songId_of (url_parse (url req))) sources
          (match (songId_of (url_parse (url req))) sources) \<and>
      (\<forall>error. match (songId_of (url_parse (url req))) sources = Rejected error \<and>
                \<not> ToString_throws (get_prop error ''message'') \<longrightarrow>
         status_of (handler url_parse match req) = Some 404)"
    if "method req = ''GET''" and "startsWith (url req) ''/match/''"
      and "sources_of (url_parse (url req)) = Inr sources"
  proof -
    have h: "handler url_parse match req =
           settle cors_headers (songId_of (url_parse (url req))) sources
             (match (songId_of (url_parse (url req))) sources)"
      using that by (rule handler_match_route)
    then show ?thesis
      by (auto simp: settle_rejected status_of_def status_writeHead_end)
  qed
  ultimately show ?thesis by blast
qed

text \<open>
  Witness of C3: \<^verbatim>\<open>GET /match/?sources=nosuch\<close>, an empty identifier and an unknown
  token, reaches \<^verbatim>\<open>match\<close> as they are.
\<close>


theorem no_request_validation_witness:
  "handler plain_url_parse
       (\<lambda>songId sources. if songId = JStr [] \<and> sources = [''nosuch'']
                          then Rejected JUndefined else Pending)
       \<lparr>method = ''GET'', url = ''/match/?sources=nosuch''\<rparr> =
     settle cors_headers (JStr []) [''nosuch''] (Rejected JUndefined) \<and>
   status_of (handler plain_url_parse
       (\<lambda>songId sources. if songId = JStr [] \<and> sources = [''nosuch'']
                          then Rejected JUndefined else Pending)
       \<lparr>method = ''GET'', url = ''/match/?sources=nosuch''\<rparr>) = Some 404"
proof -
  let ?req = "\<lparr>method = ''GET'', url = ''/match/?sources=nosuch''\<rparr>"
  let ?match = "\<lambda>songId sources. if songId = JStr [] \<and> sources = [''nosuch'']
                          then Rejected JUndefined else Pending"
  have 1: "method ?req = ''GET''" by simp
  have 2: "startsWith (url ?req) ''/match/''" by (simp add: startsWith_def)
  have 3: "sources_of (plain_url_parse (url ?req)) = Inr [''nosuch'']"
    by (simp add: sources_of_def plain_url_parse_def add_param_def split_str_def startsWith_def)
  have 4: "songId_of (plain_url_parse ''/match/?sources=nosuch'') = JStr []"
    by (simp add: songId_of_def plain_url_parse_def split_str_def startsWith_def at_index_def)
  have 5: "\<not> ToString_throws (get_prop JUndefined ''message'')" by simp
  show ?thesis
    using no_request_validation [of plain_url_parse ?match ?req "[''nosuch'']"] 1 2 3 5
    by (auto simp: 4)
qed

text \<open>
  Counterexample to C3 as stated: \<^verbatim>\<open>GET /match/\<close> has an empty track identifier;
  \<^verbatim>\<open>match\<close> is called with it (a pending promise would leave the request unanswered)
  and its rejection is answered with 404, not 400.
\<close>

theorem empty_track_id_counterexample:
  "status_of (handler plain_url_parse
       (\<lambda>songId sources. if songId = JStr [] then Rejected JUndefined else Pending)
       \<lparr>method = ''GET'', url = ''/match/''\<rparr>) = Some 404"
  by (simp add: handler_def startsWith_def sources_of_def songId_of_def plain_url_parse_def
      split_str_def at_index_def settle_def on_rejected_def errorMessage_of_def Let_def TypeError_def
      status_of_def writeHead_end_def)

subsection \<open>C4: the status of a settled resolution\<close>


text \<open>
  Claim C4, as amended. The status mapping is two-way: a resolution fulfilled with a
  value other than \<^verbatim>\<open>undefined\<close> and \<^verbatim>\<open>null\<close> whose \<^verbatim>\<open>source\<close> and \<^verbatim>\<open>url\<close>
  convert to a string is answered with 200, and every rejection with a reason whose
  \<^verbatim>\<open>message\<close> converts to a string (or with none), whatever the reason, with 404;
  no response of the server, on any route, has status 500.
\<close>

theorem status_mapping:
  "status_of (handler url_parse match req) \<noteq> Some 500 \<and>
   (method req = ''GET'' \<and> startsWith (url req) ''/match/'' \<and>
    sources_of (url_parse (url req)) = Inr sources \<longrightarrow>
      (\<forall>result. match (songId_of (url_parse (url req))) sources = Resolved result \<and>
                 \<not> nullish result \<and>
                 \<not> ToString_throws (get_prop result ''source'') \<and>
                 \<not> ToString_throws (get_prop result ''url'') \<longrightarrow>
         status_of (handler url_parse match req) = Some 200) \<and>
      (\<forall>error. match (songId_of (url_parse (url req))) sources = Rejected error \<and>
                \<not> ToString_throws (get_prop error ''message'') \<longrightarrow>
         status_of (handler url_parse match req) = Some 404))"
proof -
  have "status_of (handler url_parse match req) \<noteq> Some 500"
    using status_handler_cases [of url_parse match req] by auto
  moreover have "(\<forall>result. match (songId_of (url_parse (url req))) sources = Resolved result \<and>
                 \<not> nullish result \<and>
                 \<not> ToString_throws (get_prop result ''source'') \<and>
                 \<not> ToString_throws (get_prop result ''url'') \<longrightarrow>
         status_of (handler url_parse match req) = Some 200) \<and>
      (\<forall>error. match (songId_of (url_parse (url req))) sources = Rejected error \<and>
                \<not> ToString_throws (get_prop error ''message'') \<longrightarrow>
         status_of (handler url_parse match req) = Some 404)"
    if "method req = ''GET''" and "startsWith (url req) ''/match/''"
      and "sources_of (url_parse (url req)) = Inr sources"
  proof -
    have h: "handler url_parse match req =
           settle cors_headers (songId_of (url_parse (url req))) sources
             (match (songId_of (url_parse (url req))) sources)"
      using that by (rule handler_match_route)
    then show ?thesis
      by (auto simp: settle_rejected settle_resolved status_of_def status_writeHead_end)
  qed
  ultimately show ?thesis by blast
qed

text \<open>Witness of C4: a rejection with an engine fault, and a fulfilled resolution.\<close>


theorem status_mapping_witness:
  "status_of (handler plain_url_parse
       (\<lambda>songId sources. Rejected (TypeError ''provider is not defined''))
       \<lparr>method = ''GET'', url = ''/match/418602084''\<rparr>) = Some 404 \<and>
   status_of (handler plain_url_parse (\<lambda>songId sources. Resolved sample_result)
       \<lparr>method = ''GET'', url = ''/match/418602084''\<rparr>) = Some 200"
proof -
  let ?req = "\<lparr>method = ''GET'', url = ''/match/418602084''\<rparr>"
  let ?bad = "\<lambda>(songId :: jsval) (sources :: string list).
                 Rejected (TypeError ''provider is not defined'')"
  let ?good = "\<lambda>(songId :: jsval) (sources :: string list). Resolved sample_result"
  have 1: "method ?req = ''GET''" by simp
  have 2: "startsWith (url ?req) ''/match/''" by (simp add: startsWith_def)
  have 3: "sources_of (plain_url_parse (url ?req)) = Inr default_sources"
    by (simp add: plain_sources_of_bare)
  have 4: "\<not> ToString_throws (get_prop (TypeError ''provider is not defined'') ''message'')"
    by (simp add: TypeError_def)
  have 5: "\<not> nullish sample_result \<and> \<not> ToString_throws (get_prop sample_result ''source'') \<and>
           \<not> ToString_throws (get_prop sample_result ''url'')"
    by (simp add: sample_result_def)
  show ?thesis
    using status_mapping [of plain_url_parse ?bad ?req default_sources]
      status_mapping [of plain_url_parse ?good ?req default_sources] 1 2 3 4 5
    by simp
qed

text \<open>
  Counterexample to C4 as stated: \<^verbatim>\<open>match\<close> rejects with a \<^verbatim>\<open>TypeError\<close> of its own,
  an unexpected engine fault, and the status is 404.
\<close>

theorem engine_fault_counterexample:
  "status_of (handler plain_url_parse
       (\<lambda>songId sources. Rejected (TypeError ''provider is not defined''))
       \<lparr>method = ''GET'', url = ''/match/418602084''\<rparr>) = Some 404"
  by (simp add: handler_def startsWith_def plain_sources_of_bare plain_songId_of_bare
      settle_def on_rejected_def errorMessage_of_def Let_def TypeError_def
      status_of_def writeHead_end_def)

subsection \<open>Facts about the failure body\<close>

lemma failure_object_details:
  "map_of (failure_object songId sources errorMessage) ''details'' = Some errorMessage"
  by (simp add: failure_object_def)

lemma failure_object_error:
  "map_of (failure_object songId sources errorMessage) ''error'' =
     Some (JStr ''Song not found in any source'')"
  by (simp add: failure_object_def)

lemma failure_object_requested:
  "map_of (failure_object songId sources errorMessage) ''requestedSources'' =
     Some (JArr (map JStr sources))"
  by (simp add: failure_object_def)

subsection \<open>C5: the default source list\<close>

text \<open>
  Claim C5, as amended. For every GET request on \<^verbatim>\<open>/match/\<close> without a
  \<^verbatim>\<open>sources\<close> query parameter, \<^verbatim>\<open>match\<close> is called with the list qq, kugou, kuwo,
  migu, ytdlp, in this order: the first five of the seven sources that the
  documentation page lists, without bilivideo and joox.
\<close>

theorem default_source_list:
  assumes "method req = ''GET''" and "startsWith (url req) ''/match/''"
    and "map_of (query (url_parse (url req))) ''sources'' = None"
  shows "handler url_parse match req =
           settle cors_headers (songId_of (url_parse (url req))) default_sources
             (match (songId_of (url_parse (url req))) default_sources) \<and>
         default_sources = [''qq'', ''kugou'', ''kuwo'', ''migu'', ''ytdlp''] \<and>
         default_sources = take 5 supported_sources \<and>
         ''bilivideo'' \<notin> set default_sources \<and> ''joox'' \<notin> set default_sources"
proof -
  have "handler url_parse match req =
           settle cors_headers (songId_of (url_parse (url req))) default_sources
             (match (songId_of (url_parse (url req))) default_sources)"
    using assms by (simp add: handler_match_route sources_of_absent)
  moreover have "default_sources = take 5 supported_sources"
    by (simp add: default_sources_def supported_sources_def)
  moreover have "''bilivideo'' \<notin> set default_sources \<and> ''joox'' \<notin> set default_sources"
    by (simp add: default_sources_def)
  ultimately show ?thesis
    by (simp add: default_sources_def)
qed

text \<open>Witness of C5: \<^verbatim>\<open>GET /match/418602084\<close> reaches \<^verbatim>\<open>match\<close> with the five.\<close>

theorem default_source_list_witness:
  "handler plain_url_parse
       (\<lambda>songId sources. if sources = [''qq'', ''kugou'', ''kuwo'', ''migu'', ''ytdlp'']
                          then Resolved sample_result else Pending)
       \<lparr>method = ''GET'', url = ''/match/418602084''\<rparr> =
     settle cors_headers (JStr ''418602084'') [''qq'', ''kugou'', ''kuwo'', ''migu'', ''ytdlp'']
       (Resolved sample_result)"
proof -
  let ?req = "\<lparr>method = ''GET'', url = ''/match/418602084''\<rparr>"
  let ?match = "\<lambda>(songId :: jsval) sources.
                  if sources = [''qq'', ''kugou'', ''kuwo'', ''migu'', ''ytdlp'']
                  then Resolved sample_result else Pending"
  have 1: "method ?req = ''GET''" by simp
  have 2: "startsWith (url ?req) ''/match/''" by (simp add: startsWith_def)
  have 3: "map_of (query (plain_url_parse (url ?req))) ''sources'' = None"
    by (simp add: plain_url_parse_def split_str_def)
  show ?thesis
    using default_source_list [of ?req plain_url_parse ?match, OF 1 2 3]
    by (auto simp: plain_songId_of_bare)
qed

text \<open>
  Counterexample to C5 as stated: a track that \<^verbatim>\<open>match\<close> resolves whenever joox, one
  of the advertised sources, is among the sources it is given. Requested without a
  \<^verbatim>\<open>sources\<close> parameter, it is answered with 404: joox was not attempted.
\<close>

theorem default_sources_subset_counterexample:
  "status_of (handler plain_url_parse
       (\<lambda>songId sources. if ''joox'' \<in> set sources then Resolved sample_result
                          else Rejected JUndefined)
       \<lparr>method = ''GET'', url = ''/match/418602084''\<rparr>) = Some 404 \<and>
   ''joox'' \<in> set supported_sources"
proof -
  have "''joox'' \<notin> set default_sources"
    by (simp add: default_sources_def)
  then have "status_of (handler plain_url_parse
       (\<lambda>songId sources. if ''joox'' \<in> set sources then Resolved sample_result
                          else Rejected JUndefined)
       \<lparr>method = ''GET'', url = ''/match/418602084''\<rparr>) = Some 404"
    by (simp add: handler_def startsWith_def plain_sources_of_bare plain_songId_of_bare
      settle_def on_rejected_def errorMessage_of_def Let_def TypeError_def
      status_of_def writeHead_end_def)
  moreover have "''joox'' \<in> set supported_sources"
    by (simp add: supported_sources_def)
  ultimately show ?thesis by blast
qed

subsection \<open>C6: the configuration at process start\<close>

text \<open>
  Claim C6, at a failing input. An operator starts the process with
  \<^verbatim>\<open>FOLLOW_SOURCE_ORDER=true\<close>, \<^verbatim>\<open>ENABLE_FLAC=false\<close> and \<^verbatim>\<open>PORT=8080\<close>. After
  lines 2 to 8 the values in effect are \<^verbatim>\<open>FOLLOW_SOURCE_ORDER=false\<close> and
  \<^verbatim>\<open>ENABLE_FLAC=true\<close>: the assignments are unconditional, although the comment
  above them and the README present them as defaults. Only the port is the
  operator's.
\<close>

theorem operator_settings_overwritten:
  "startup [''FOLLOW_SOURCE_ORDER'' \<mapsto> ''true'', ''ENABLE_FLAC'' \<mapsto> ''false'',
            ''PORT'' \<mapsto> ''8080''] ''FOLLOW_SOURCE_ORDER'' = Some ''false'' \<and>
   startup [''FOLLOW_SOURCE_ORDER'' \<mapsto> ''true'', ''ENABLE_FLAC'' \<mapsto> ''false'',
            ''PORT'' \<mapsto> ''8080''] ''ENABLE_FLAC'' = Some ''true'' \<and>
   PORT [''FOLLOW_SOURCE_ORDER'' \<mapsto> ''true'', ''ENABLE_FLAC'' \<mapsto> ''false'',
         ''PORT'' \<mapsto> ''8080''] = JStr ''8080''"
  by (simp add: startup_def PORT_def)

subsection \<open>C7: the failure body\<close>


text \<open>
  Claim C7, as amended. For every rejected resolution whose reason has a
  \<^verbatim>\<open>message\<close> that converts to a string, or none, the response has status 404 and
  its body echoes the requested sources, has the fixed \<^verbatim>\<open>error\<close> text and one
  \<^verbatim>\<open>details\<close> value: the \<^verbatim>\<open>message\<close> of the rejection reason when there is a truthy
  one, otherwise the string \<^verbatim>\<open>Unknown error\<close>. The server builds no list of
  per-source failures.
\<close>

theorem failure_body_details:
  assumes "method req = ''GET''" and "startsWith (url req) ''/match/''"
    and "sources_of (url_parse (url req)) = Inr sources"
    and "match (songId_of (url_parse (url req))) sources = Rejected error"
    and "\<not> ToString_throws (get_prop error ''message'')"
  shows "status_of (handler url_parse match req) = Some 404 \<and>
         map_of (json_fields (handler url_parse match req)) ''requestedSources'' =
           Some (JArr (map JStr sources)) \<and>
         map_of (json_fields (handler url_parse match req)) ''error'' =
           Some (JStr ''Song not found in any source'') \<and>
         map_of (json_fields (handler url_parse match req)) ''details'' =
           Some (if truthy (get_prop error ''message'')
                 then stringify (get_prop error ''message'')
                 else JStr ''Unknown error'')"
proof -
  let ?h = "handler url_parse match req"
  let ?o = "failure_object (songId_of (url_parse (url req))) sources (errorMessage_of error)"
  have h: "?h = Response (writeHead_end cors_headers 404
             [(''Content-Type'', ''application/json'')] (JsonBody (JObj (stringify_props ?o))))"
    using assms by (simp add: handler_match_route settle_rejected)
  have st: "status_of ?h = Some 404"
    by (simp add: h status_of_def status_writeHead_end)
  have f: "json_fields ?h = stringify_props ?o"
    by (simp add: h json_fields_def body_writeHead_end)
  have r: "map_of (stringify_props ?o) ''requestedSources'' = Some (JArr (map JStr sources))"
    by (simp add: map_of_stringify_props failure_object_distinct failure_object_requested
        stringify_elems_strings)
  have e: "map_of (stringify_props ?o) ''error'' = Some (JStr ''Song not found in any source'')"
    by (simp add: map_of_stringify_props failure_object_distinct failure_object_error)
  have d: "map_of (stringify_props ?o) ''details'' = Some (stringify (errorMessage_of error))"
    by (simp add: map_of_stringify_props failure_object_distinct failure_object_details
        errorMessage_defined)
  have m: "stringify (errorMessage_of error) =
             (if truthy (get_prop error ''message'')
                 then stringify (get_prop error ''message'')
                 else JStr ''Unknown error'')"
    by (simp add: errorMessage_of_message)
  show ?thesis
    unfolding f r e d m using st by simp
qed

text \<open>Witness of C7: a rejection with an \<^verbatim>\<open>Error\<close> whose message is reported.\<close>

theorem failure_body_details_witness:
  "status_of (handler plain_url_parse
       (\<lambda>songId sources. Rejected (TypeError ''Request failed''))
       \<lparr>method = ''GET'', url = ''/match/418602084?sources=qq,kugou''\<rparr>) = Some 404 \<and>
   map_of (json_fields (handler plain_url_parse
       (\<lambda>songId sources. Rejected (TypeError ''Request failed''))
       \<lparr>method = ''GET'', url = ''/match/418602084?sources=qq,kugou''\<rparr>)) ''details'' =
     Some (JStr ''Request failed'')"
proof -
  let ?req = "\<lparr>method = ''GET'', url = ''/match/418602084?sources=qq,kugou''\<rparr>"
  let ?match = "\<lambda>(songId :: jsval) (sources :: string list).
                  Rejected (TypeError ''Request failed'')"
  have 1: "method ?req = ''GET''" by simp
  have 2: "startsWith (url ?req) ''/match/''" by (simp add: startsWith_def)
  have 3: "sources_of (plain_url_parse (url ?req)) = Inr [''qq'', ''kugou'']"
    by (simp add: plain_sources_of_sample)
  have 4: "?match (songId_of (plain_url_parse (url ?req))) [''qq'', ''kugou''] =
             Rejected (TypeError ''Request failed'')"
    by simp
  have 5: "\<not> ToString_throws (get_prop (TypeError ''Request failed'') ''message'')"
    by (simp add: TypeError_def)
  show ?thesis
    using failure_body_details [of ?req plain_url_parse "[''qq'', ''kugou'']" ?match
        "TypeError ''Request failed''", OF 1 2 3 4 5]
    by (simp add: TypeError_def)
qed

text \<open>
  Counterexample to C7 as stated: two sources are requested and \<^verbatim>\<open>match\<close> rejects
  without a reason. The \<^verbatim>\<open>details\<close> field is the string \<^verbatim>\<open>Unknown error\<close>, not a
  list of two failure entries.
\<close>

theorem failure_details_counterexample:
  "status_of (handler plain_url_parse (\<lambda>songId sources. Rejected JUndefined)
       \<lparr>method = ''GET'', url = ''/match/418602084?sources=qq,kugou''\<rparr>) = Some 404 \<and>
   map_of (json_fields (handler plain_url_parse (\<lambda>songId sources. Rejected JUndefined)
       \<lparr>method = ''GET'', url = ''/match/418602084?sources=qq,kugou''\<rparr>)) ''details'' =
     Some (JStr ''Unknown error'') \<and>
   map_option length (details_entries (handler plain_url_parse
       (\<lambda>songId sources. Rejected JUndefined)
       \<lparr>method = ''GET'', url = ''/match/418602084?sources=qq,kugou''\<rparr>)) \<noteq> Some 2"
  by (simp add: handler_def startsWith_def plain_sources_of_sample plain_songId_of_sample
      settle_def on_rejected_def errorMessage_of_def failure_object_def
      status_of_def json_fields_def details_entries_def writeHead_end_def)

subsection \<open>C8: ordered fallback\<close>

lemma ordered_fallback_first_candidate:
  assumes "k < length adapters"
    and "snd (adapters ! k) trackId = Candidate c"
    and "\<forall>j < k. \<exists>f. snd (adapters ! j) trackId = Failed f"
  shows "ordered_fallback adapters trackId failures called =
           (Success c, called @ map fst (take (Suc k) adapters))"
  using assms
proof (induction adapters arbitrary: k failures called)
  case Nil
  then show ?case by simp
next
  case (Cons a rest)
  obtain src resolve where a: "a = (src, resolve)" by (cases a)
  show ?case
  proof (cases k)
    case 0
    with Cons.prems a show ?thesis by simp
  next
    case (Suc k')
    with Cons.prems have "\<exists>f. snd ((a # rest) ! 0) trackId = Failed f" by blast
    with a obtain f where f: "resolve trackId = Failed f" by auto
    from Suc Cons.prems have 1: "k' < length rest"
      and 2: "snd (rest ! k') trackId = Candidate c" by simp_all
    have 3: "\<forall>j < k'. \<exists>f. snd (rest ! j) trackId = Failed f"
    proof (intro allI impI)
      fix j assume "j < k'"
      with Suc have "Suc j < k" by simp
      with Cons.prems(3) have "\<exists>f. snd ((a # rest) ! Suc j) trackId = Failed f" by blast
      then show "\<exists>f. snd (rest ! j) trackId = Failed f" by simp
    qed
    from Cons.IH [OF 1 2 3, of "failures @ [f]" "called @ [src]"] a f Suc
    show ?thesis by simp
  qed
qed

lemma ordered_fallback_all_failed:
  assumes "\<forall>j < length adapters. \<exists>f. snd (adapters ! j) trackId = Failed f"
  shows "\<exists>fs. ordered_fallback adapters trackId failures called =
                 (Exhausted (failures @ fs), called @ map fst adapters) \<and>
              length fs = length adapters \<and>
              (\<forall>j < length adapters. snd (adapters ! j) trackId = Failed (fs ! j))"
  using assms
proof (induction adapters arbitrary: failures called)
  case Nil
  then show ?case by simp
next
  case (Cons a rest)
  obtain src resolve where a: "a = (src, resolve)" by (cases a)
  from Cons.prems have "\<exists>f. snd ((a # rest) ! 0) trackId = Failed f" by blast
  with a obtain f where f: "resolve trackId = Failed f" by auto
  have "\<forall>j < length rest. \<exists>f. snd (rest ! j) trackId = Failed f"
  proof (intro allI impI)
    fix j assume "j < length rest"
    then have "Suc j < length (a # rest)" by simp
    with Cons.prems have "\<exists>f. snd ((a # rest) ! Suc j) trackId = Failed f" by blast
    then show "\<exists>f. snd (rest ! j) trackId = Failed f" by simp
  qed
  from Cons.IH [OF this, of "failures @ [f]" "called @ [src]"]
  obtain fs where run: "ordered_fallback rest trackId (failures @ [f]) (called @ [src]) =
        (Exhausted ((failures @ [f]) @ fs), (called @ [src]) @ map fst rest)"
    and len: "length fs = length rest"
    and each: "\<forall>j < length rest. snd (rest ! j) trackId = Failed (fs ! j)"
    by blast
  have "\<forall>j < length (a # rest). snd ((a # rest) ! j) trackId = Failed ((f # fs) ! j)"
  proof (intro allI impI)
    fix j assume "j < length (a # rest)"
    then show "snd ((a # rest) ! j) trackId = Failed ((f # fs) ! j)"
      using each a f by (cases j) auto
  qed
  with run len a f
  have "ordered_fallback (a # rest) trackId failures called =
          (Exhausted (failures @ (f # fs)), called @ map fst (a # rest)) \<and>
        length (f # fs) = length (a # rest) \<and>
        (\<forall>j < length (a # rest). snd ((a # rest) ! j) trackId = Failed ((f # fs) ! j))"
    by simp
  then show ?case by blast
qed

text \<open>
  Claim C8. Under ordered fallback the adapters are invoked one at a time in priority
  order, and the first CandidateStream returned wins at once. When the adapter at
  position \<open>k\<close> of the attempt order returns a CandidateStream and every adapter before
  it a Failure, the result is the Success with that CandidateStream and the sources
  invoked are exactly the first \<open>k + 1\<close> of the attempt order, in that order: no
  adapter after the winner is invoked. When every adapter returns a Failure, all are
  invoked, in the attempt order, and the result is Exhausted with one Failure for
  each, in that order.
\<close>

theorem ordered_fallback_stops_at_winner:
  "(k < length adapters \<and> snd (adapters ! k) trackId = Candidate c \<and>
    (\<forall>j < k. \<exists>f. snd (adapters ! j) trackId = Failed f) \<longrightarrow>
      resolve_in_order adapters trackId = (Success c, map fst (take (Suc k) adapters))) \<and>
   ((\<forall>j < length adapters. \<exists>f. snd (adapters ! j) trackId = Failed f) \<longrightarrow>
      (\<exists>fs. resolve_in_order adapters trackId = (Exhausted fs, map fst adapters) \<and>
            length fs = length adapters \<and>
            (\<forall>j < length adapters. snd (adapters ! j) trackId = Failed (fs ! j))))"
proof -
  have "resolve_in_order adapters trackId = (Success c, map fst (take (Suc k) adapters))"
    if "k < length adapters" and "snd (adapters ! k) trackId = Candidate c"
      and "\<forall>j < k. \<exists>f. snd (adapters ! j) trackId = Failed f"
    using ordered_fallback_first_candidate [OF that, of "[]" "[]"]
    by (simp add: resolve_in_order_def)
  moreover have "\<exists>fs. resolve_in_order adapters trackId = (Exhausted fs, map fst adapters) \<and>
            length fs = length adapters \<and>
            (\<forall>j < length adapters. snd (adapters ! j) trackId = Failed (fs ! j))"
    if "\<forall>j < length adapters. \<exists>f. snd (adapters ! j) trackId = Failed f"
    using ordered_fallback_all_failed [OF that, of "[]" "[]"]
    by (simp add: resolve_in_order_def)
  ultimately show ?thesis by blast
qed

text \<open>
  Witness of C8: the spec's examples. With sources x, y and one beyond, x fails, y
  succeeds with bitrate 320000, and the adapter beyond y is not invoked; with sources
  x and y both failing, both are invoked and the result is Exhausted with their two
  Failures.
\<close>

theorem ordered_fallback_stops_at_winner_witness:
  "resolve_in_order
     [(''x'', \<lambda>t. Failed \<lparr>failed_source = ''x'', failure_cause = NotFound, detail = []\<rparr>),
      (''y'', \<lambda>t. Candidate \<lparr>audio_url = ''https://y.example/'' @ t, bitrate = 320000,
                               byte_size = 0, checksum = None, origin = ''y''\<rparr>),
      (''z'', \<lambda>t. Candidate \<lparr>audio_url = ''https://z.example/'' @ t, bitrate = 999000,
                               byte_size = 0, checksum = None, origin = ''z''\<rparr>)]
     ''418602084'' =
   (Success \<lparr>audio_url = ''https://y.example/418602084'', bitrate = 320000,
             byte_size = 0, checksum = None, origin = ''y''\<rparr>,
    [''x'', ''y'']) \<and>
   resolve_in_order
     [(''x'', \<lambda>t. Failed \<lparr>failed_source = ''x'', failure_cause = NotFound, detail = []\<rparr>),
      (''y'', \<lambda>t. Failed \<lparr>failed_source = ''y'', failure_cause = NotFound, detail = []\<rparr>)]
     ''418602084'' =
   (Exhausted [\<lparr>failed_source = ''x'', failure_cause = NotFound, detail = []\<rparr>,
               \<lparr>failed_source = ''y'', failure_cause = NotFound, detail = []\<rparr>],
    [''x'', ''y''])"
proof -
  let ?fx = "\<lparr>failed_source = ''x'', failure_cause = NotFound, detail = []\<rparr>"
  let ?fy = "\<lparr>failed_source = ''y'', failure_cause = NotFound, detail = []\<rparr>"
  let ?cy = "\<lparr>audio_url = ''https://y.example/418602084'', bitrate = 320000,
             byte_size = 0, checksum = None, origin = ''y''\<rparr>"
  let ?won = "[(''x'', \<lambda>t :: string. Failed ?fx),
      (''y'', \<lambda>t. Candidate \<lparr>audio_url = ''https://y.example/'' @ t, bitrate = 320000,
                               byte_size = 0, checksum = None, origin = ''y''\<rparr>),
      (''z'', \<lambda>t. Candidate \<lparr>audio_url = ''https://z.example/'' @ t, bitrate = 999000,
                               byte_size = 0, checksum = None, origin = ''z''\<rparr>)]"
  let ?lost = "[(''x'', \<lambda>t :: string. Failed ?fx), (''y'', \<lambda>t :: string. Failed ?fy)]"
  have 1: "(1::nat) < length ?won" by simp
  have 2: "snd (?won ! 1) ''418602084'' = Candidate ?cy" by simp
  have 3: "\<forall>j < (1::nat). \<exists>f. snd (?won ! j) ''418602084'' = Failed f" by simp
  have 4: "\<forall>j < length ?lost. \<exists>f. snd (?lost ! j) ''418602084'' = Failed f"
    by (simp add: less_Suc_eq)
  have won: "resolve_in_order ?won ''418602084'' = (Success ?cy, map fst (take (Suc 1) ?won))"
    using ordered_fallback_stops_at_winner [of 1 ?won "''418602084''" ?cy] 1 2 3 by blast
  have lost: "\<exists>fs. resolve_in_order ?lost ''418602084'' = (Exhausted fs, map fst ?lost) \<and>
            length fs = length ?lost \<and>
            (\<forall>j < length ?lost. snd (?lost ! j) ''418602084'' = Failed (fs ! j))"
    using ordered_fallback_stops_at_winner [of 0 ?lost "''418602084''"] 4 by blast
  have "resolve_in_order ?lost ''418602084'' = (Exhausted [?fx, ?fy], [''x'', ''y''])"
    by (simp add: resolve_in_order_def)
  with won lost show ?thesis by simp
qed

end
